theory Spec2Isabelle
  imports Complex_Main "HOL-Library.Word" "HOL-Library.Signed_Division" "HOL-Library.Multiset"
begin

section \<open>Numbers of the program\<close>

text \<open>
  The C++ type \<^verbatim>\<open>float\<close> is IEEE 754 binary32. A value is a finite number, one of the two
  infinities or NaN. The result of an operation on finite numbers is the exact result
  rounded to the nearest number with a significand of 24 bits, a tie going to the even
  significand. The exponent of a number \<open>x\<close> is \<open>\<lfloor>log\<^sub>2 \<bar>x\<bar>\<rfloor>\<close>, and not below \<open>-126\<close>: under
  \<open>2\<^sup>-\<^sup>1\<^sup>2\<^sup>6\<close> the numbers are the multiples of \<open>2\<^sup>-\<^sup>1\<^sup>4\<^sup>9\<close> (the subnormal numbers), and a small
  result can round to zero. A result that rounds to \<open>2\<^sup>1\<^sup>2\<^sup>8\<close> or more is an infinity. On the
  infinities and on NaN the operations and the comparisons are the IEEE ones: every
  comparison with NaN is false.

  Two things are left out. The sign of zero: a division of a non-zero number by zero takes
  the zero as \<open>+0\<close>, and the only divisors of the program that can be zero are a sum of
  squares and a converted \<^verbatim>\<open>int\<close>, which are never \<open>-0\<close>. And the type is wider than
  binary32: \<open>Finite x\<close> exists for every real \<open>x\<close>, so a statement about all values covers
  the binary32 values, which are those that \<open>round32\<close> returns.
\<close>

datatype float = Finite real | PInf | NInf | NaN

definition signed_inf :: "bool \<Rightarrow> float" where
  "signed_inf positive = (if positive then PInf else NInf)"

text \<open>Rounding a real to the nearest integer, a tie going to the even one.\<close>

definition rne :: "real \<Rightarrow> int" where
  "rne q = (let f = \<lfloor>q\<rfloor> in
      if q - of_int f < 1 / 2 then f
      else if 1 / 2 < q - of_int f then f + 1
      else if even f then f else f + 1)"

text \<open>The exponent of a number, and the distance between the binary32 numbers around it.\<close>

definition expo :: "real \<Rightarrow> int" where
  "expo x = max \<lfloor>log 2 \<bar>x\<bar>\<rfloor> (- 126)"

definition ulp :: "real \<Rightarrow> real" where
  "ulp x = 2 powi (expo x - 23)"

text \<open>The rounded magnitude of a number that is not negative, and the rounding to binary32.\<close>

definition round_mag :: "real \<Rightarrow> real" where
  "round_mag x = of_int (rne (x / ulp x)) * ulp x"

definition round32 :: "real \<Rightarrow> float" where
  "round32 x = (let r = round_mag \<bar>x\<bar> in
      if 2 ^ 128 \<le> r then signed_inf (0 < x) else Finite (sgn x * r))"

fun fneg :: "float \<Rightarrow> float" where
  "fneg (Finite a) = Finite (- a)"
| "fneg PInf = NInf"
| "fneg NInf = PInf"
| "fneg NaN = NaN"

fun fadd :: "float \<Rightarrow> float \<Rightarrow> float" where
  "fadd (Finite a) (Finite b) = round32 (a + b)"
| "fadd NaN _ = NaN"
| "fadd _ NaN = NaN"
| "fadd PInf NInf = NaN"
| "fadd NInf PInf = NaN"
| "fadd PInf _ = PInf"
| "fadd _ PInf = PInf"
| "fadd NInf _ = NInf"
| "fadd _ NInf = NInf"

definition fsub :: "float \<Rightarrow> float \<Rightarrow> float" where
  "fsub a b = fadd a (fneg b)"

fun fmul :: "float \<Rightarrow> float \<Rightarrow> float" where
  "fmul (Finite a) (Finite b) = round32 (a * b)"
| "fmul NaN _ = NaN"
| "fmul _ NaN = NaN"
| "fmul PInf (Finite b) = (if b = 0 then NaN else signed_inf (0 < b))"
| "fmul NInf (Finite b) = (if b = 0 then NaN else signed_inf (b < 0))"
| "fmul (Finite a) PInf = (if a = 0 then NaN else signed_inf (0 < a))"
| "fmul (Finite a) NInf = (if a = 0 then NaN else signed_inf (a < 0))"
| "fmul PInf PInf = PInf"
| "fmul PInf NInf = NInf"
| "fmul NInf PInf = NInf"
| "fmul NInf NInf = PInf"

fun fdiv :: "float \<Rightarrow> float \<Rightarrow> float" where
  "fdiv (Finite a) (Finite b) =
     (if b = 0 then (if a = 0 then NaN else signed_inf (0 < a)) else round32 (a / b))"
| "fdiv NaN _ = NaN"
| "fdiv _ NaN = NaN"
| "fdiv (Finite a) _ = Finite 0"
| "fdiv PInf (Finite b) = signed_inf (0 \<le> b)"
| "fdiv NInf (Finite b) = signed_inf (b < 0)"
| "fdiv _ _ = NaN"

fun fsqrt :: "float \<Rightarrow> float" where
  "fsqrt (Finite a) = (if a < 0 then NaN else round32 (sqrt a))"
| "fsqrt PInf = PInf"
| "fsqrt NInf = NaN"
| "fsqrt NaN = NaN"

fun flt :: "float \<Rightarrow> float \<Rightarrow> bool" where
  "flt (Finite a) (Finite b) = (a < b)"
| "flt NaN _ = False"
| "flt _ NaN = False"
| "flt _ NInf = False"
| "flt PInf _ = False"
| "flt NInf _ = True"
| "flt _ PInf = True"

definition fge :: "float \<Rightarrow> float \<Rightarrow> bool" where
  "fge a b = (a \<noteq> NaN \<and> b \<noteq> NaN \<and> \<not> flt a b)"

text \<open>\<^verbatim>\<open>static_cast<float>(i)\<close> and the implicit conversion of an \<^verbatim>\<open>int\<close> literal: the integer,
  rounded.\<close>

definition float_of_int :: "int \<Rightarrow> float" where
  "float_of_int i = round32 (of_int i)"

section \<open>Data of the program\<close>

text \<open>
  raylib's \<^verbatim>\<open>Color\<close> (four bytes r, g, b, a) and \<^verbatim>\<open>Vector3\<close> (three floats x, y, z). The
  fields carry a prefix, since a field named \<open>x\<close> would capture the variable \<open>x\<close>.
\<close>

record Color =
  col_r :: "8 word"
  col_g :: "8 word"
  col_b :: "8 word"
  col_a :: "8 word"

definition WHITE :: Color where
  "WHITE = \<lparr>col_r = 255, col_g = 255, col_b = 255, col_a = 255\<rparr>"

definition BLACK :: Color where
  "BLACK = \<lparr>col_r = 0, col_g = 0, col_b = 0, col_a = 255\<rparr>"

record Vector3 =
  vec_x :: float
  vec_y :: float
  vec_z :: float

text \<open>raymath's \<^verbatim>\<open>Vector3Subtract\<close> and \<^verbatim>\<open>Vector3DotProduct\<close>.\<close>

definition Vector3Subtract :: "Vector3 \<Rightarrow> Vector3 \<Rightarrow> Vector3" where
  "Vector3Subtract v1 v2 =
     \<lparr>vec_x = fsub (vec_x v1) (vec_x v2),
      vec_y = fsub (vec_y v1) (vec_y v2),
      vec_z = fsub (vec_z v1) (vec_z v2)\<rparr>"

definition Vector3DotProduct :: "Vector3 \<Rightarrow> Vector3 \<Rightarrow> float" where
  "Vector3DotProduct v1 v2 =
     fadd (fadd (fmul (vec_x v1) (vec_x v2)) (fmul (vec_y v1) (vec_y v2)))
          (fmul (vec_z v1) (vec_z v2))"

section \<open>The canvas\<close>

text \<open>
  The render texture is the framebuffer: a colour for every screen coordinate. The C++
  \<^verbatim>\<open>int\<close> is modelled by \<open>int\<close>; \<^verbatim>\<open>/\<close> on \<^verbatim>\<open>int\<close> truncates towards zero (\<open>sdiv\<close>), and
  an overflowing \<^verbatim>\<open>int\<close> operation is undefined behaviour in C++, outside the model.
\<close>

record Canvas =
  CanvasWidth :: int
  CanvasHeight :: int
  ViewWidth :: float
  ViewHeight :: float
  Distance :: float
  background :: Color
  renderTexture :: "int \<times> int \<Rightarrow> Color"

definition SetViewPort :: "Canvas \<Rightarrow> float \<Rightarrow> float \<Rightarrow> float \<Rightarrow> Canvas" where
  "SetViewPort c Vx Vy d = c\<lparr>ViewWidth := Vx, ViewHeight := Vy, Distance := d\<rparr>"

definition IsInBounds :: "Canvas \<Rightarrow> int \<Rightarrow> int \<Rightarrow> bool" where
  "IsInBounds c x y = (x \<ge> 0 \<and> x < CanvasWidth c \<and> y \<ge> 0 \<and> y < CanvasHeight c)"

definition IsInBoundsCentered :: "Canvas \<Rightarrow> int \<Rightarrow> int \<Rightarrow> bool" where
  "IsInBoundsCentered c x y =
     (x \<ge> (- CanvasWidth c) sdiv 2 \<and> x < CanvasWidth c sdiv 2 \<and>
      y \<ge> (- CanvasHeight c) sdiv 2 \<and> y < CanvasHeight c sdiv 2)"

text \<open>raylib's \<^verbatim>\<open>DrawPixel\<close>, between \<^verbatim>\<open>BeginTextureMode\<close> and \<^verbatim>\<open>EndTextureMode\<close>: one pixel
  of the texture takes the colour.\<close>

definition DrawPixel :: "int \<Rightarrow> int \<Rightarrow> Color \<Rightarrow> (int \<times> int \<Rightarrow> Color) \<Rightarrow> (int \<times> int \<Rightarrow> Color)" where
  "DrawPixel x y color tex = tex((x, y) := color)"

definition PutPixel :: "Canvas \<Rightarrow> int \<Rightarrow> int \<Rightarrow> Color \<Rightarrow> Canvas" where
  "PutPixel c x y color =
     (if IsInBounds c x y
      then c\<lparr>renderTexture := DrawPixel x y color (renderTexture c)\<rparr>
      else c)"

text \<open>The screen coordinate \<^verbatim>\<open>PutPixelCentered\<close> computes before it calls \<^verbatim>\<open>PutPixel\<close>.\<close>

definition screen_of_centered :: "Canvas \<Rightarrow> int \<Rightarrow> int \<Rightarrow> int \<times> int" where
  "screen_of_centered c x y =
     (let screenX = CanvasWidth c sdiv 2 + x;
          screenY = CanvasHeight c sdiv 2 - y
      in (screenX, screenY))"

definition PutPixelCentered :: "Canvas \<Rightarrow> int \<Rightarrow> int \<Rightarrow> Color \<Rightarrow> Canvas" where
  "PutPixelCentered c x y color =
     (case screen_of_centered c x y of (screenX, screenY) \<Rightarrow> PutPixel c screenX screenY color)"

definition CanvasToViewPort :: "Canvas \<Rightarrow> int \<Rightarrow> int \<Rightarrow> Vector3" where
  "CanvasToViewPort c x y =
     \<lparr>vec_x = fdiv (fmul (float_of_int x) (ViewWidth c)) (float_of_int (CanvasWidth c)),
      vec_y = fneg (fdiv (fmul (float_of_int y) (ViewHeight c)) (float_of_int (CanvasHeight c))),
      vec_z = Distance c\<rparr>"

definition Clear :: "Canvas \<Rightarrow> Color \<Rightarrow> Canvas" where
  "Clear c color = c\<lparr>background := color, renderTexture := (\<lambda>_. color)\<rparr>"

definition GetBackground :: "Canvas \<Rightarrow> Color" where
  "GetBackground c = background c"

section \<open>The ray tracer\<close>

record Sphere =
  center :: Vector3
  radius :: float
  color :: Color

text \<open>
  The tracer holds a reference to the canvas and its own array of spheres. The reference is
  modelled by passing the canvas, as it is at the time of the call, to \<open>TraceRay\<close>.
\<close>

record Raytracer =
  spheres :: "Sphere list"

definition vec3 :: "real \<Rightarrow> real \<Rightarrow> real \<Rightarrow> Vector3" where
  "vec3 a b c = \<lparr>vec_x = Finite a, vec_y = Finite b, vec_z = Finite c\<rparr>"

definition rgba :: "8 word \<Rightarrow> 8 word \<Rightarrow> 8 word \<Rightarrow> 8 word \<Rightarrow> Color" where
  "rgba r g b a = \<lparr>col_r = r, col_g = g, col_b = b, col_a = a\<rparr>"

definition Raytracer_new :: Raytracer where
  "Raytracer_new = \<lparr>spheres =
     [\<lparr>center = vec3 0 (-1) 3, radius = Finite 1, color = rgba 255 0 0 255\<rparr>,
      \<lparr>center = vec3 (-2) 0 4, radius = Finite 1, color = rgba 0 255 0 255\<rparr>,
      \<lparr>center = vec3 2 0 4, radius = Finite 1, color = rgba 0 0 255 255\<rparr>,
      \<lparr>center = vec3 0 (-5001) 0, radius = Finite 5000, color = rgba 255 255 0 255\<rparr>,
      \<lparr>center = vec3 0 2 3, radius = Finite 1, color = BLACK\<rparr>]\<rparr>"

definition IntersectRaySphere :: "Vector3 \<Rightarrow> Vector3 \<Rightarrow> Sphere \<Rightarrow> float \<times> float" where
  "IntersectRaySphere origin direction sphere =
     (let oc = Vector3Subtract origin (center sphere);
          k1 = Vector3DotProduct direction direction;
          k2 = fmul (Finite 2) (Vector3DotProduct oc direction);
          k3 = fsub (Vector3DotProduct oc oc) (fmul (radius sphere) (radius sphere));
          discriminant = fsub (fmul k2 k2) (fmul (fmul (float_of_int 4) k1) k3)
      in if flt discriminant (float_of_int 0) then (PInf, PInf)
         else
           (let t1 = fdiv (fadd (fneg k2) (fsqrt discriminant)) (fmul (float_of_int 2) k1);
                t2 = fdiv (fsub (fneg k2) (fsqrt discriminant)) (fmul (float_of_int 2) k1)
            in (t1, t2)))"

text \<open>
  One turn of the loop of \<^verbatim>\<open>TraceRay\<close>: the state is \<^verbatim>\<open>closest_t\<close> and \<^verbatim>\<open>closest_sphere\<close>
  (\<open>None\<close> for the null pointer).
\<close>

definition TraceRay_step ::
  "Vector3 \<Rightarrow> Vector3 \<Rightarrow> float \<Rightarrow> float \<Rightarrow> float \<times> Sphere option \<Rightarrow> Sphere \<Rightarrow> float \<times> Sphere option" where
  "TraceRay_step origin direction t_min t_max st sphere =
     (case IntersectRaySphere origin direction sphere of (fst_t, snd_t) \<Rightarrow>
        (let st1 = (if flt fst_t (fst st) \<and> flt t_min fst_t \<and> flt fst_t t_max
                    then (fst_t, Some sphere) else st);
             st2 = (if flt snd_t (fst st1) \<and> flt t_min snd_t \<and> flt snd_t t_max
                    then (snd_t, Some sphere) else st1)
         in st2))"

definition TraceRay_loop ::
  "Vector3 \<Rightarrow> Vector3 \<Rightarrow> float \<Rightarrow> float \<Rightarrow> Sphere list \<Rightarrow> float \<times> Sphere option" where
  "TraceRay_loop origin direction t_min t_max ss =
     foldl (TraceRay_step origin direction t_min t_max) (PInf, None) ss"

text \<open>\<^verbatim>\<open>TraceRay\<close> is not a \<^verbatim>\<open>const\<close> member: it returns the colour and the tracer after the call.\<close>

definition TraceRay ::
  "Raytracer \<Rightarrow> Canvas \<Rightarrow> Vector3 \<Rightarrow> Vector3 \<Rightarrow> float \<Rightarrow> float \<Rightarrow> Color \<times> Raytracer" where
  "TraceRay rt cv origin direction t_min t_max =
     (case snd (TraceRay_loop origin direction t_min t_max (spheres rt)) of
        None \<Rightarrow> (GetBackground cv, rt)
      | Some closest_sphere \<Rightarrow> (color closest_sphere, rt))"

section \<open>Vocabulary of the properties\<close>

text \<open>
  A root lies in the valid range when it is strictly between the two bounds, as the loop
  tests it. The roots of a sphere are the two numbers \<^verbatim>\<open>IntersectRaySphere\<close> returns for it,
  and a sphere is hit when one of them lies in the range.
\<close>

definition in_range :: "float \<Rightarrow> float \<Rightarrow> float \<Rightarrow> bool" where
  "in_range t_min t_max t = (flt t_min t \<and> flt t t_max)"

definition roots :: "Vector3 \<Rightarrow> Vector3 \<Rightarrow> Sphere \<Rightarrow> float list" where
  "roots origin direction sphere =
     [fst (IntersectRaySphere origin direction sphere),
      snd (IntersectRaySphere origin direction sphere)]"

definition sphere_hit :: "Vector3 \<Rightarrow> Vector3 \<Rightarrow> float \<Rightarrow> float \<Rightarrow> Sphere \<Rightarrow> bool" where
  "sphere_hit origin direction t_min t_max sphere =
     list_ex (in_range t_min t_max) (roots origin direction sphere)"


text \<open>A sequence of calls of \<^verbatim>\<open>TraceRay\<close> on one tracer, each with its own arguments.\<close>

definition TraceRay_calls ::
  "Raytracer \<Rightarrow> (Canvas \<times> Vector3 \<times> Vector3 \<times> float \<times> float) list \<Rightarrow> Raytracer" where
  "TraceRay_calls rt calls =
     foldl (\<lambda>rt (cv, origin, direction, t_min, t_max).
              snd (TraceRay rt cv origin direction t_min t_max)) rt calls"

text \<open>
  The discriminant of the quadratic of a ray and a sphere in the real numbers, as the
  specification writes it: \<open>b\<^sup>2 - 4ac\<close> with \<open>a = direction \<cdot> direction\<close>,
  \<open>b = 2 (origin - center) \<cdot> direction\<close> and
  \<open>c = (origin - center) \<cdot> (origin - center) - radius\<^sup>2\<close>.
\<close>

definition exact_discriminant ::
  "real \<times> real \<times> real \<Rightarrow> real \<times> real \<times> real \<Rightarrow> real \<times> real \<times> real \<Rightarrow> real \<Rightarrow> real" where
  "exact_discriminant origin direction cen r =
     (case (origin, direction, cen) of ((ox, oy, oz), (dx, dy, dz), (cx, cy, cz)) \<Rightarrow>
        (let a = dx * dx + dy * dy + dz * dz;
             b = 2 * ((ox - cx) * dx + (oy - cy) * dy + (oz - cz) * dz);
             c = (ox - cx) * (ox - cx) + (oy - cy) * (oy - cy) + (oz - cz) * (oz - cz) - r * r
         in b * b - 4 * a * c))"

section \<open>Concrete inputs\<close>

text \<open>
  The canvas as \<^verbatim>\<open>main\<close> sets it up: 800 by 600 pixels, the viewport 1, 1, 1, cleared to
  white.
\<close>

definition main_canvas :: Canvas where
  "main_canvas =
     \<lparr>CanvasWidth = 800, CanvasHeight = 600,
      ViewWidth = Finite 1, ViewHeight = Finite 1, Distance = Finite 1,
      background = WHITE, renderTexture = (\<lambda>_. WHITE)\<rparr>"

text \<open>
  Spheres on and beside the ray from the origin along the z axis: \<open>sphere_near\<close> is met at
  \<open>t = 2\<close> and \<open>t = 4\<close>, \<open>sphere_twin\<close> is the same sphere in another colour, \<open>sphere_far\<close>
  is met at \<open>t = 5\<close> and \<open>t = 7\<close>, and \<open>sphere_aside\<close> is not met.
\<close>

definition sphere_near :: Sphere where
  "sphere_near = \<lparr>center = vec3 0 0 3, radius = Finite 1, color = rgba 255 0 0 255\<rparr>"

definition sphere_twin :: Sphere where
  "sphere_twin = \<lparr>center = vec3 0 0 3, radius = Finite 1, color = rgba 0 0 255 255\<rparr>"

definition sphere_far :: Sphere where
  "sphere_far = \<lparr>center = vec3 0 0 6, radius = Finite 1, color = rgba 0 255 0 255\<rparr>"

definition sphere_aside :: Sphere where
  "sphere_aside = \<lparr>center = vec3 5 0 3, radius = Finite 1, color = rgba 255 255 0 255\<rparr>"




definition tie_tracer :: Raytracer where
  "tie_tracer = \<lparr>spheres = [sphere_aside, sphere_near, sphere_twin, sphere_far]\<rparr>"

definition tie_tracer_moved :: Raytracer where
  "tie_tracer_moved = \<lparr>spheres = [sphere_near, sphere_twin, sphere_aside, sphere_far]\<rparr>"


definition sphere_graze :: Sphere where
  "sphere_graze = \<lparr>center = vec3 1 0 4096, radius = Finite (1 / 2), color = rgba 255 0 0 255\<rparr>"

definition sphere_unit :: Sphere where
  "sphere_unit = \<lparr>center = vec3 0 0 0, radius = Finite 1, color = rgba 255 0 0 255\<rparr>"


section \<open>Rounding\<close>

text \<open>
  The integer rounding is monotone, and so is the rounding of a magnitude: within one
  exponent it is the integer rounding of the multiple of the spacing, and from one exponent
  to the next the power of two between them separates the results. A number with at most
  24 significant bits, above the subnormal spacing, is rounded to itself.
\<close>

lemma rne_of_int [simp]: "rne (of_int n) = n"
  by (simp add: rne_def)

lemma rne_bounds: "\<lfloor>q\<rfloor> \<le> rne q \<and> rne q \<le> \<lfloor>q\<rfloor> + 1"
  by (simp add: rne_def Let_def)

lemma rne_mono: "q \<le> q' \<Longrightarrow> rne q \<le> rne q'"
proof -
  assume le: "q \<le> q'"
  then have fl: "\<lfloor>q\<rfloor> \<le> \<lfloor>q'\<rfloor>" by (rule floor_mono)
  show ?thesis
  proof (cases "\<lfloor>q\<rfloor> = \<lfloor>q'\<rfloor>")
    case True
    with le show ?thesis
      by (auto simp: rne_def Let_def)
  next
    case False
    with fl have "\<lfloor>q\<rfloor> + 1 \<le> \<lfloor>q'\<rfloor>" by simp
    with rne_bounds [of q] rne_bounds [of q'] show ?thesis by linarith
  qed
qed

lemma two_powr_powi: "(2::real) powr (of_int k) = 2 powi k"
  by (simp add: powr_real_of_int power_int_def power_one_over inverse_eq_divide)

lemma floor_log2_eq:
  assumes "0 < x" "2 powi e \<le> x" "x < 2 powi (e + 1)"
  shows "\<lfloor>log 2 x\<rfloor> = e"
  using assms floor_log_eq_powr_iff [of x 2 e]
  by (simp add: two_powr_powi [symmetric])

lemma floor_log2_bounds:
  assumes "0 < x"
  shows "2 powi \<lfloor>log 2 x\<rfloor> \<le> x \<and> x < 2 powi (\<lfloor>log 2 x\<rfloor> + 1)"
  using assms floor_log_eq_powr_iff [of x 2 "\<lfloor>log 2 x\<rfloor>"]
  by (simp add: two_powr_powi [symmetric])

lemma expo_eq:
  assumes "- 126 \<le> e" "2 powi e \<le> \<bar>x\<bar>" "\<bar>x\<bar> < 2 powi (e + 1)"
  shows "expo x = e"
proof -
  have "0 < (2::real) powi e" by simp
  with assms(2) have "0 < \<bar>x\<bar>" by linarith
  from floor_log2_eq [OF this assms(2,3)] assms(1) show ?thesis
    by (simp add: expo_def)
qed

lemma expo_ge: "- 126 \<le> expo x"
  by (simp add: expo_def)

lemma expo_upper: "x \<noteq> 0 \<Longrightarrow> \<bar>x\<bar> < 2 powi (expo x + 1)"
proof -
  assume "x \<noteq> 0"
  then have pos: "0 < \<bar>x\<bar>" by simp
  have "\<lfloor>log 2 \<bar>x\<bar>\<rfloor> + 1 \<le> expo x + 1" by (simp add: expo_def)
  then have "(2::real) powi (\<lfloor>log 2 \<bar>x\<bar>\<rfloor> + 1) \<le> 2 powi (expo x + 1)"
    by (intro power_int_increasing) simp_all
  with floor_log2_bounds [OF pos] show ?thesis by linarith
qed

lemma expo_lower: "x \<noteq> 0 \<Longrightarrow> - 126 < expo x \<Longrightarrow> 2 powi expo x \<le> \<bar>x\<bar>"
proof -
  assume "x \<noteq> 0" "- 126 < expo x"
  then have pos: "0 < \<bar>x\<bar>" and "expo x = \<lfloor>log 2 \<bar>x\<bar>\<rfloor>"
    by (simp_all add: expo_def max_def split: if_splits)
  with floor_log2_bounds [OF pos] show ?thesis by simp
qed

lemma expo_mono: "x \<noteq> 0 \<Longrightarrow> \<bar>x\<bar> \<le> \<bar>y\<bar> \<Longrightarrow> expo x \<le> expo y"
proof -
  assume "x \<noteq> 0" "\<bar>x\<bar> \<le> \<bar>y\<bar>"
  then have "0 < \<bar>x\<bar>" "0 < \<bar>y\<bar>" by simp_all
  with \<open>\<bar>x\<bar> \<le> \<bar>y\<bar>\<close> have "log 2 \<bar>x\<bar> \<le> log 2 \<bar>y\<bar>" by simp
  then have "\<lfloor>log 2 \<bar>x\<bar>\<rfloor> \<le> \<lfloor>log 2 \<bar>y\<bar>\<rfloor>" by (rule floor_mono)
  then show ?thesis by (simp add: expo_def)
qed

lemma ulp_pos [simp]: "0 < ulp x"
  by (simp add: ulp_def)

lemma ulp_nonneg [simp]: "0 \<le> ulp x"
  by (simp add: ulp_def)

lemma ulp_neq0 [simp]: "ulp x \<noteq> 0"
  by (simp add: ulp_def)

lemma ulp_abs [simp]: "ulp \<bar>x\<bar> = ulp x"
  by (simp add: ulp_def expo_def)

lemma round_mag_nonneg: "0 \<le> x \<Longrightarrow> 0 \<le> round_mag x"
proof -
  assume "0 \<le> x"
  then have "0 \<le> x / ulp x" by (intro divide_nonneg_pos) simp_all
  then have "rne (of_int 0) \<le> rne (x / ulp x)" by (intro rne_mono) simp
  then have "0 \<le> rne (x / ulp x)" by (simp only: rne_of_int)
  then show ?thesis by (simp add: round_mag_def)
qed


lemma ulp_times_24: "2 ^ 24 * ulp x = 2 powi (expo x + 1)"
proof -
  have "(2::real) powi (24 + (expo x - 23)) = 2 powi 24 * 2 powi (expo x - 23)"
    by (rule power_int_add) simp
  then show ?thesis by (simp add: ulp_def add.commute)
qed

lemma ulp_times_23: "2 ^ 23 * ulp x = 2 powi expo x"
proof -
  have "(2::real) powi (23 + (expo x - 23)) = 2 powi 23 * 2 powi (expo x - 23)"
    by (rule power_int_add) simp
  then show ?thesis by (simp add: ulp_def)
qed

lemma round_mag_le:
  assumes "x \<le> of_int n * ulp x"
  shows "round_mag x \<le> of_int n * ulp x"
proof -
  from assms have "x / ulp x \<le> of_int n"
    by (simp add: pos_divide_le_eq)
  then have "rne (x / ulp x) \<le> rne (of_int n)" by (rule rne_mono)
  then have "real_of_int (rne (x / ulp x)) \<le> of_int n" by simp
  then show ?thesis
    by (simp add: round_mag_def mult_right_mono)
qed

lemma round_mag_ge:
  assumes "of_int n * ulp x \<le> x"
  shows "of_int n * ulp x \<le> round_mag x"
proof -
  from assms have "of_int n \<le> x / ulp x"
    by (simp add: pos_le_divide_eq)
  then have "rne (of_int n) \<le> rne (x / ulp x)" by (rule rne_mono)
  then have "of_int n \<le> real_of_int (rne (x / ulp x))" by simp
  then show ?thesis
    by (simp add: round_mag_def mult_right_mono)
qed

lemma round_mag_exact:
  assumes "x = of_int n * ulp x"
  shows "round_mag x = x"
  using round_mag_le [of x n] round_mag_ge [of n x] assms by simp

lemma round_mag_0 [simp]: "round_mag 0 = 0"
  using round_mag_exact [of 0 0] by simp

lemma round_mag_upper: "x \<noteq> 0 \<Longrightarrow> round_mag \<bar>x\<bar> \<le> 2 powi (expo x + 1)"
proof -
  assume "x \<noteq> 0"
  from expo_upper [OF this] have "\<bar>x\<bar> \<le> of_int (2 ^ 24) * ulp \<bar>x\<bar>"
    using ulp_times_24 [of x] by simp
  from round_mag_le [OF this] show ?thesis
    using ulp_times_24 [of x] by simp
qed

lemma round_mag_lower: "x \<noteq> 0 \<Longrightarrow> - 126 < expo x \<Longrightarrow> 2 powi expo x \<le> round_mag \<bar>x\<bar>"
proof -
  assume "x \<noteq> 0" "- 126 < expo x"
  from expo_lower [OF this] have "of_int (2 ^ 23) * ulp \<bar>x\<bar> \<le> \<bar>x\<bar>"
    using ulp_times_23 [of x] by simp
  from round_mag_ge [OF this] show ?thesis
    using ulp_times_23 [of x] by simp
qed

lemma round_mag_mono:
  assumes "0 \<le> x" "x \<le> y"
  shows "round_mag x \<le> round_mag y"
proof (cases "x = 0")
  case True
  with assms round_mag_nonneg [of y] show ?thesis by simp
next
  case False
  with assms have pos: "x \<noteq> 0" "y \<noteq> 0" and ab: "\<bar>x\<bar> \<le> \<bar>y\<bar>" "\<bar>x\<bar> = x" "\<bar>y\<bar> = y"
    by simp_all
  from expo_mono [OF pos(1) ab(1)] have le: "expo x \<le> expo y" .
  show ?thesis
  proof (cases "expo x = expo y")
    case True
    then have u: "ulp x = ulp y" by (simp add: ulp_def)
    from assms(2) have "x / ulp y \<le> y / ulp y"
      by (simp add: divide_right_mono)
    then have "rne (x / ulp y) \<le> rne (y / ulp y)" by (rule rne_mono)
    then show ?thesis
      by (simp add: round_mag_def u mult_right_mono)
  next
    case False
    with le have lt: "expo x + 1 \<le> expo y" by simp
    with expo_ge [of x] have "- 126 < expo y" by linarith
    from round_mag_lower [OF pos(2) this] ab(3) have "2 powi expo y \<le> round_mag y" by simp
    moreover from round_mag_upper [OF pos(1)] ab(2) have "round_mag x \<le> 2 powi (expo x + 1)" by simp
    moreover from lt have "(2::real) powi (expo x + 1) \<le> 2 powi expo y"
      by (intro power_int_increasing) simp_all
    ultimately show ?thesis by linarith
  qed
qed

lemma round_mag_dyadic:
  assumes "x = of_int m * 2 powi k" "\<bar>m\<bar> < 2 ^ 24" "- 149 \<le> k"
  shows "round_mag \<bar>x\<bar> = \<bar>x\<bar>"
proof (cases "x = 0")
  case True
  then show ?thesis by simp
next
  case False
  have "\<bar>x\<bar> = of_int \<bar>m\<bar> * 2 powi k"
    by (simp add: assms(1) abs_mult)
  also have "\<dots> < 2 ^ 24 * 2 powi k"
  proof -
    from assms(2) have "real_of_int \<bar>m\<bar> < 2 ^ 24"
      by (metis of_int_less_numeral_power_cancel_iff)
    then show ?thesis by (simp add: mult_strict_right_mono)
  qed
  also have "\<dots> = 2 powi (k + 24)"
    using power_int_add [of "2::real" k 24] by simp
  finally have up: "\<bar>x\<bar> < 2 powi (k + 24)" .
  have ek: "expo x \<le> k + 23"
  proof (rule ccontr)
    assume "\<not> expo x \<le> k + 23"
    then have big: "k + 24 \<le> expo x" by simp
    with assms(3) have "- 126 < expo x" by linarith
    from expo_lower [OF False this] have "2 powi expo x \<le> \<bar>x\<bar>" .
    moreover from big have "(2::real) powi (k + 24) \<le> 2 powi expo x"
      by (intro power_int_increasing) simp_all
    ultimately show False using up by linarith
  qed
  define j where "j = nat (k + 23 - expo x)"
  with ek have j: "int j = k + 23 - expo x" by simp
  have "2 powi k = 2 powi (int j + (expo x - 23))"
    using j by (simp add: algebra_simps)
  also have "\<dots> = 2 ^ j * ulp x"
    using power_int_add [of "2::real" "int j" "expo x - 23"] by (simp add: ulp_def)
  finally have pk: "2 powi k = 2 ^ j * ulp x" .
  have "of_int \<bar>m\<bar> * 2 powi k = of_int (\<bar>m\<bar> * 2 ^ j) * ulp x"
    by (simp add: pk)
  with \<open>\<bar>x\<bar> = of_int \<bar>m\<bar> * 2 powi k\<close> have e1: "\<bar>x\<bar> = of_int (\<bar>m\<bar> * 2 ^ j) * ulp x"
    by (simp only:)
  show ?thesis
  proof (rule round_mag_exact [of "\<bar>x\<bar>" "\<bar>m\<bar> * 2 ^ j"])
    show "\<bar>x\<bar> = of_int (\<bar>m\<bar> * 2 ^ j) * ulp \<bar>x\<bar>"
      unfolding ulp_abs by (fact e1)
  qed
qed


text \<open>
  The rounding to binary32 is never NaN, commutes with the negation, is monotone, leaves
  the binary32 numbers as they are, is finite exactly below the overflow threshold, and a
  result that is not zero is at least \<open>2\<^sup>-\<^sup>1\<^sup>4\<^sup>9\<close> in magnitude.
\<close>

lemma round32_not_NaN [simp]: "round32 x \<noteq> NaN"
  by (simp add: round32_def Let_def signed_inf_def)

lemma round32_0 [simp]: "round32 0 = Finite 0"
  by (simp add: round32_def)

lemma round32_nonneg:
  "0 \<le> x \<Longrightarrow> round32 x = (if 2 ^ 128 \<le> round_mag x then PInf else Finite (round_mag x))"
  by (cases "x = 0") (simp_all add: round32_def Let_def signed_inf_def)

lemma round32_nonpos:
  "x \<le> 0 \<Longrightarrow> round32 x = (if 2 ^ 128 \<le> round_mag (- x) then NInf else Finite (- round_mag (- x)))"
  by (cases "x = 0") (simp_all add: round32_def Let_def signed_inf_def)

lemma round32_neg: "round32 (- x) = fneg (round32 x)"
  by (cases "x = 0") (auto simp: round32_def Let_def signed_inf_def)

lemma round32_mono:
  assumes "x \<le> y"
  shows "fge (round32 y) (round32 x)"
proof -
  consider (pos) "0 \<le> x" | (mixed) "x < 0" "0 \<le> y" | (neg) "y < 0" by linarith
  then show ?thesis
  proof cases
    case pos
    with assms have "0 \<le> y" by simp
    from round_mag_mono [OF pos assms] show ?thesis
      by (simp add: round32_nonneg pos \<open>0 \<le> y\<close> fge_def)
  next
    case mixed
    from mixed(1) have "0 \<le> round_mag (- x)" by (intro round_mag_nonneg) simp
    moreover from mixed(2) have "0 \<le> round_mag y" by (rule round_mag_nonneg)
    ultimately show ?thesis using mixed
      by (simp add: round32_nonneg round32_nonpos fge_def)
  next
    case neg
    with assms have "x < 0" "0 \<le> - y" "- y \<le> - x" by simp_all
    from round_mag_mono [OF this(2,3)] show ?thesis using neg \<open>x < 0\<close>
      by (simp add: round32_nonpos fge_def)
  qed
qed

lemma round32_mono_Finite:
  "x \<le> y \<Longrightarrow> round32 x = Finite p \<Longrightarrow> round32 y = Finite q \<Longrightarrow> p \<le> q"
  using round32_mono [of x y] by (simp add: fge_def)

lemma round32_exact:
  assumes "x = of_int m * 2 powi k" "\<bar>m\<bar> < 2 ^ 24" "- 149 \<le> k" "\<bar>x\<bar> < 2 ^ 128"
  shows "round32 x = Finite x"
  using round_mag_dyadic [OF assms(1-3)] assms(4)
  by (simp add: round32_def Let_def mult_sgn_abs)

lemma round32_numeral [simp]:
  "(numeral w :: int) < 2 ^ 24 \<Longrightarrow> round32 (numeral w) = Finite (numeral w)"
proof -
  assume small: "(numeral w :: int) < 2 ^ 24"
  then have "real_of_int (numeral w) < 2 ^ 24"
    by (metis of_int_less_numeral_power_cancel_iff)
  moreover have "(2::real) ^ 24 \<le> 2 ^ 128"
    by (rule power_increasing) simp_all
  ultimately have "real_of_int (numeral w) < 2 ^ 128"
    by (rule less_le_trans)
  then have big: "\<bar>numeral w :: real\<bar> < 2 ^ 128"
    by (simp only: of_int_numeral abs_numeral)
  have "\<bar>numeral w :: int\<bar> < 2 ^ 24"
    using small by (simp only: abs_numeral)
  from round32_exact [of "numeral w" "numeral w" 0, OF _ this _ big] show ?thesis
    by simp
qed

lemma round32_neg_numeral [simp]:
  "(numeral w :: int) < 2 ^ 24 \<Longrightarrow> round32 (- numeral w) = Finite (- numeral w)"
  by (simp add: round32_neg)

lemma round32_1 [simp]: "round32 1 = Finite 1"
  using round32_exact [of 1 1 0] by simp

lemma round32_minus_1 [simp]: "round32 (- 1) = Finite (- 1)"
  by (simp add: round32_neg)

lemma round32_pow2:
  assumes "- 149 \<le> k" "k < 128"
  shows "round32 (2 powi k) = Finite (2 powi k)"
proof -
  from assms(2) have "(2::real) powi k < 2 powi 128"
    by (intro power_int_strict_increasing) simp_all
  then have "\<bar>(2::real) powi k\<bar> < 2 ^ 128" by simp
  with round32_exact [of "2 powi k" 1 k] assms(1) show ?thesis by simp
qed

lemma round_mag_pow2: "- 149 \<le> k \<Longrightarrow> round_mag (2 powi k) = 2 powi k"
  using round_mag_dyadic [of "2 powi k" 1 k] by simp

lemma round32_FiniteD:
  "round32 x = Finite r \<Longrightarrow> r = sgn x * round_mag \<bar>x\<bar> \<and> round_mag \<bar>x\<bar> < 2 ^ 128"
  by (auto simp: round32_def Let_def signed_inf_def split: if_splits)

lemma round32_arg_bound:
  assumes "round32 x = Finite r"
  shows "\<bar>x\<bar> < 2 ^ 128"
proof (rule ccontr)
  assume "\<not> \<bar>x\<bar> < 2 ^ 128"
  then have "(2::real) powi 128 \<le> \<bar>x\<bar>" by simp
  then have "round_mag (2 powi 128) \<le> round_mag \<bar>x\<bar>"
    by (intro round_mag_mono) simp_all
  with round_mag_pow2 [of 128] round32_FiniteD [OF assms] show False by simp
qed

lemma round32_le_bound:
  assumes "\<bar>x\<bar> \<le> B" "round_mag B = B" "B < 2 ^ 128"
  shows "\<exists>r. round32 x = Finite r \<and> \<bar>r\<bar> \<le> B"
proof -
  from assms(1) have "round_mag \<bar>x\<bar> \<le> round_mag B"
    by (intro round_mag_mono) simp_all
  with assms(2) have le: "round_mag \<bar>x\<bar> \<le> B" by simp
  with assms(3) have "round32 x = Finite (sgn x * round_mag \<bar>x\<bar>)"
    by (simp add: round32_def Let_def)
  moreover have "\<bar>sgn x * round_mag \<bar>x\<bar>\<bar> \<le> B"
    using le round_mag_nonneg [of "\<bar>x\<bar>"] by (simp add: abs_mult abs_sgn_eq)
  ultimately show ?thesis by blast
qed

lemma round32_min_pos:
  assumes "round32 x = Finite r" "r \<noteq> 0"
  shows "2 powi (- 149) \<le> \<bar>r\<bar>"
proof -
  from round32_FiniteD [OF assms(1)] have r: "r = sgn x * round_mag \<bar>x\<bar>" by simp
  with assms(2) have nz: "x \<noteq> 0" "round_mag \<bar>x\<bar> \<noteq> 0" by auto
  from r nz(1) have ar: "\<bar>r\<bar> = round_mag \<bar>x\<bar>"
    using round_mag_nonneg [of "\<bar>x\<bar>"] by (simp add: abs_mult abs_sgn_eq)
  define n where "n = rne (\<bar>x\<bar> / ulp \<bar>x\<bar>)"
  have rm: "round_mag \<bar>x\<bar> = of_int n * ulp x"
    by (simp add: round_mag_def n_def)
  from round_mag_nonneg [of "\<bar>x\<bar>"] rm have "0 \<le> of_int n * ulp x" by simp
  then have "0 \<le> n" using ulp_pos [of x] by (auto simp: zero_le_mult_iff)
  moreover from nz(2) rm have "n \<noteq> 0" by auto
  ultimately have "1 \<le> n" by simp
  then have "1 * ulp x \<le> of_int n * ulp x"
    by (intro mult_right_mono) simp_all
  moreover have "(2::real) powi (- 149) \<le> ulp x"
    unfolding ulp_def using expo_ge [of x] by (intro power_int_increasing) simp_all
  ultimately have "(2::real) powi (- 149) \<le> of_int n * ulp x" by linarith
  then show ?thesis by (simp only: ar rm)
qed

lemma round32_eval:
  assumes "- 126 \<le> e" "2 powi e \<le> \<bar>x\<bar>" "\<bar>x\<bar> < 2 powi (e + 1)"
    and "rne (\<bar>x\<bar> / 2 powi (e - 23)) = n" "of_int n * 2 powi (e - 23) < (2::real) ^ 128"
  shows "round32 x = Finite (sgn x * (of_int n * 2 powi (e - 23)))"
proof -
  from expo_eq [OF assms(1-3)] have "ulp x = 2 powi (e - 23)"
    by (simp add: ulp_def)
  then have "ulp \<bar>x\<bar> = 2 powi (e - 23)"
    by (simp only: ulp_abs)
  with assms(4) have "round_mag \<bar>x\<bar> = of_int n * 2 powi (e - 23)"
    by (simp add: round_mag_def)
  with assms(5) show ?thesis
    by (simp add: round32_def Let_def)
qed


text \<open>
  Values of the rounding used below: \<open>1/800\<close> and \<open>1/50\<close> are not binary32 numbers,
  \<open>2\<^sup>2\<^sup>4 + 1\<close> is rounded to \<open>2\<^sup>2\<^sup>4\<close>, and so is \<open>2\<^sup>2\<^sup>4 - 1/4\<close>.
\<close>

lemma round32_800th: "round32 (1 / 800) = Finite (5368709 / 4294967296)"
proof -
  have "round32 (1 / 800) = Finite (sgn (1 / 800) * (of_int 10737418 * 2 powi (- 10 - 23)))"
    by (rule round32_eval) (simp_all add: rne_def power_int_minus)
  then show ?thesis by (simp add: power_int_minus)
qed

lemma round32_50th: "round32 (1 / 50) = Finite (5368709 / 268435456)"
proof -
  have "round32 (1 / 50) = Finite (sgn (1 / 50) * (of_int 10737418 * 2 powi (- 6 - 23)))"
    by (rule round32_eval) (simp_all add: rne_def power_int_minus)
  then show ?thesis by (simp add: power_int_minus)
qed

lemma round32_16777217: "round32 16777217 = Finite 16777216"
proof -
  have "round32 16777217 = Finite (sgn 16777217 * (of_int 8388608 * 2 powi (24 - 23)))"
    by (rule round32_eval) (simp_all add: rne_def)
  then show ?thesis by simp
qed

lemma round32_2p24: "round32 16777216 = Finite 16777216"
  using round32_pow2 [of 24] by simp

lemma round32_2p26: "round32 67108864 = Finite 67108864"
  using round32_pow2 [of 26] by simp

lemma round32_quarter: "round32 (1 / 4) = Finite (1 / 4)"
  using round32_pow2 [of "- 2"] by (simp add: power_int_minus)

lemma round32_half: "round32 (1 / 2) = Finite (1 / 2)"
  using round32_pow2 [of "- 1"] by (simp add: power_int_minus)

lemma round32_absorb: "round32 (67108863 / 4) = Finite 16777216"
proof -
  have "round32 (67108863 / 4) = Finite (sgn (67108863 / 4) * (of_int 16777216 * 2 powi (23 - 23)))"
    by (rule round32_eval) (simp_all add: rne_def)
  then show ?thesis by simp
qed

lemma round32_overflow: "2 ^ 128 \<le> x \<Longrightarrow> round32 x = PInf"
proof -
  assume big: "2 ^ 128 \<le> x"
  then have "0 \<le> x" by (smt (verit) zero_le_power)
  from big have "round_mag (2 powi 128) \<le> round_mag x"
    by (intro round_mag_mono) simp_all
  with round_mag_pow2 [of 128] have "2 ^ 128 \<le> round_mag x" by simp
  with \<open>0 \<le> x\<close> show ?thesis by (simp add: round32_nonneg)
qed

lemma float_of_int_exact:
  assumes "\<bar>i\<bar> \<le> 2 ^ 24"
  shows "float_of_int i = Finite (of_int i)"
proof (cases "\<bar>i\<bar> < 2 ^ 24")
  case True
  then have "\<bar>real_of_int i\<bar> < 2 ^ 24"
    by (metis of_int_abs of_int_less_numeral_power_cancel_iff)
  moreover have "(2::real) ^ 24 \<le> 2 ^ 128" by (rule power_increasing) simp_all
  ultimately have "\<bar>real_of_int i\<bar> < 2 ^ 128" by (rule less_le_trans)
  from round32_exact [of "of_int i" i 0, OF _ True _ this] show ?thesis
    by (simp add: float_of_int_def)
next
  case False
  with assms have "i = 2 ^ 24 \<or> i = - (2 ^ 24)" by linarith
  then show ?thesis
    using round32_pow2 [of 24] by (auto simp: float_of_int_def round32_neg)
qed

lemma float_of_int_2: "float_of_int 2 = Finite 2"
  by (simp add: float_of_int_def)

section \<open>The comparison of floats\<close>

text \<open>
  On the numbers that are not NaN, \<open>flt\<close> is a strict linear order; a number in a valid
  range is finite, whatever the bounds are.
\<close>

lemma flt_PInf_left [simp]: "\<not> flt PInf t"
  by (cases t) simp_all

lemma flt_trans: "flt a b \<Longrightarrow> flt b c \<Longrightarrow> flt a c"
  by (cases a; cases b; cases c) auto

lemma flt_irrefl: "\<not> flt a a"
  by (cases a) auto

lemma flt_total: "a \<noteq> NaN \<Longrightarrow> b \<noteq> NaN \<Longrightarrow> flt a b \<or> a = b \<or> flt b a"
  by (cases a; cases b) auto

lemma flt_asym: "flt a b \<Longrightarrow> \<not> flt b a"
  by (cases a; cases b) auto

lemma in_range_Finite: "in_range t_min t_max t \<Longrightarrow> \<exists>r. t = Finite r"
  by (cases t; cases t_min; cases t_max) (auto simp: in_range_def)

lemma in_range_lt_PInf: "in_range t_min t_max t \<Longrightarrow> flt t PInf"
  by (auto dest: in_range_Finite)


section \<open>The loop of the tracer\<close>

text \<open>
  A sphere with no root in range leaves the state of the loop as it is. A turn either keeps
  the state or takes the sphere with its smallest root in range, which is then below the
  old closest root. These facts use the comparison only, never the arithmetic that
  produced the roots.
\<close>

lemma step_miss:
  "\<not> sphere_hit origin direction t_min t_max s \<Longrightarrow>
   TraceRay_step origin direction t_min t_max st s = st"
  by (auto simp: TraceRay_step_def sphere_hit_def roots_def in_range_def split: prod.splits)

lemma loop_filter:
  "foldl (TraceRay_step origin direction t_min t_max) st ss =
   foldl (TraceRay_step origin direction t_min t_max) st
     (filter (sphere_hit origin direction t_min t_max) ss)"
  by (induction ss arbitrary: st) (simp_all add: step_miss)

lemma step_cases:
  assumes "TraceRay_step origin direction t_min t_max (ct, cs) s = (ct', cs')"
  shows "(ct' = ct \<and> cs' = cs \<and> (\<forall>t\<in>set (roots origin direction s). in_range t_min t_max t \<longrightarrow> \<not> flt t ct)) \<or>
         (cs' = Some s \<and> ct' \<in> set (roots origin direction s) \<and> in_range t_min t_max ct' \<and> flt ct' ct \<and>
           (\<forall>t\<in>set (roots origin direction s). in_range t_min t_max t \<longrightarrow> \<not> flt t ct'))"
  using assms
  by (auto simp: TraceRay_step_def roots_def in_range_def Let_def flt_irrefl
      split: prod.splits if_splits dest: flt_asym flt_trans)



lemma foldl_above:
  assumes "\<forall>p\<in>set pre. \<forall>t'\<in>set (roots origin direction p). in_range t_min t_max t' \<longrightarrow> flt t t'"
    and "flt t (fst st)"
  shows "flt t (fst (foldl (TraceRay_step origin direction t_min t_max) st pre))"
  using assms
proof (induction pre arbitrary: st)
  case Nil
  then show ?case by simp
next
  case (Cons p pre)
  obtain ct cs where st: "st = (ct, cs)" by (cases st)
  obtain ct' cs' where st': "TraceRay_step origin direction t_min t_max (ct, cs) p = (ct', cs')"
    by (cases "TraceRay_step origin direction t_min t_max (ct, cs) p")
  from step_cases [OF st'] Cons.prems st have "flt t ct'"
    by auto
  with Cons.IH [of "(ct', cs')"] Cons.prems(1) show ?case
    by (simp add: st st')
qed

lemma step_takes_min:
  assumes "flt t ct" "t \<in> set (roots origin direction s)" "in_range t_min t_max t"
    and "\<forall>t'\<in>set (roots origin direction s). in_range t_min t_max t' \<longrightarrow> \<not> flt t' t"
  shows "TraceRay_step origin direction t_min t_max (ct, cs) s = (t, Some s)"
proof -
  obtain ct' cs' where st': "TraceRay_step origin direction t_min t_max (ct, cs) s = (ct', cs')"
    by (cases "TraceRay_step origin direction t_min t_max (ct, cs) s")
  from step_cases [OF st'] assms(1-3) have take: "cs' = Some s"
    "ct' \<in> set (roots origin direction s)" "in_range t_min t_max ct'"
    "\<forall>t'\<in>set (roots origin direction s). in_range t_min t_max t' \<longrightarrow> \<not> flt t' ct'"
    by auto
  from take(2,3) assms(4) have "\<not> flt ct' t" by blast
  moreover from take(4) assms(2,3) have "\<not> flt t ct'" by blast
  moreover from assms(3) take(3) have "t \<noteq> NaN" "ct' \<noteq> NaN"
    by (auto dest: in_range_Finite)
  ultimately have "ct' = t" using flt_total by blast
  with st' take(1) show ?thesis by simp
qed

lemma foldl_keeps:
  assumes "\<forall>q\<in>set post. \<forall>t'\<in>set (roots origin direction q). in_range t_min t_max t' \<longrightarrow> \<not> flt t' t"
  shows "foldl (TraceRay_step origin direction t_min t_max) (t, cs) post = (t, cs)"
  using assms
proof (induction post)
  case Nil
  show ?case by simp
next
  case (Cons q post)
  obtain ct' cs' where st': "TraceRay_step origin direction t_min t_max (t, cs) q = (ct', cs')"
    by (cases "TraceRay_step origin direction t_min t_max (t, cs) q")
  from step_cases [OF st'] Cons.prems have "ct' = t" "cs' = cs"
    by auto
  with Cons st' show ?case by simp
qed

lemma loop_first_min:
  assumes "\<forall>p\<in>set pre. \<forall>t'\<in>set (roots origin direction p). in_range t_min t_max t' \<longrightarrow> flt t t'"
    and "t \<in> set (roots origin direction s)" "in_range t_min t_max t"
    and "\<forall>q\<in>set (s # post). \<forall>t'\<in>set (roots origin direction q). in_range t_min t_max t' \<longrightarrow> \<not> flt t' t"
  shows "TraceRay_loop origin direction t_min t_max (pre @ s # post) = (t, Some s)"
proof -
  let ?st = "foldl (TraceRay_step origin direction t_min t_max) (PInf, None) pre"
  from assms(3) have "flt t (fst (PInf, None :: Sphere option))"
    by (auto dest: in_range_lt_PInf)
  from foldl_above [OF assms(1) this] have "flt t (fst ?st)" .
  with assms(2-4) have "TraceRay_step origin direction t_min t_max ?st s = (t, Some s)"
    using step_takes_min [of t "fst ?st" origin direction s t_min t_max "snd ?st"] by simp
  with foldl_keeps [of post origin direction t_min t_max t "Some s"] assms(4) show ?thesis
    by (simp add: TraceRay_loop_def)
qed

lemma TraceRay_color:
  "fst (TraceRay rt cv origin direction t_min t_max) =
     (case snd (TraceRay_loop origin direction t_min t_max (spheres rt)) of
        None \<Rightarrow> GetBackground cv | Some s \<Rightarrow> color s)"
  by (simp add: TraceRay_def split: option.splits)


lemma TraceRay_state: "snd (TraceRay rt cv origin direction t_min t_max) = rt"
  by (simp add: TraceRay_def split: option.splits)

lemma TraceRay_calls_state: "TraceRay_calls rt calls = rt"
  by (induction calls arbitrary: rt) (simp_all add: TraceRay_calls_def TraceRay_state split: prod.splits)

section \<open>Evaluation on the concrete inputs\<close>

lemmas float_eval = float_of_int_def fsub_def vec3_def Vector3Subtract_def Vector3DotProduct_def
  IntersectRaySphere_def Let_def

lemma sqrt4: "sqrt 4 = 2"
  using real_sqrt_abs [of 2] by simp

lemma Intersect_near:
  "IntersectRaySphere (vec3 0 0 0) (vec3 0 0 1) sphere_near = (Finite 4, Finite 2)"
  by (simp add: float_eval sphere_near_def sqrt4)

lemma Intersect_twin:
  "IntersectRaySphere (vec3 0 0 0) (vec3 0 0 1) sphere_twin = (Finite 4, Finite 2)"
  by (simp add: float_eval sphere_twin_def sqrt4)

lemma Intersect_far:
  "IntersectRaySphere (vec3 0 0 0) (vec3 0 0 1) sphere_far = (Finite 7, Finite 5)"
  by (simp add: float_eval sphere_far_def sqrt4)

lemma Intersect_aside:
  "IntersectRaySphere (vec3 0 0 0) (vec3 0 0 1) sphere_aside = (PInf, PInf)"
  by (simp add: float_eval sphere_aside_def)

lemma sphere_hit_eval:
  "sphere_hit (vec3 0 0 0) (vec3 0 0 1) (Finite 1) (Finite 10) sphere_near"
  "sphere_hit (vec3 0 0 0) (vec3 0 0 1) (Finite 1) (Finite 10) sphere_twin"
  "sphere_hit (vec3 0 0 0) (vec3 0 0 1) (Finite 1) (Finite 10) sphere_far"
  "\<not> sphere_hit (vec3 0 0 0) (vec3 0 0 1) (Finite 1) (Finite 10) sphere_aside"
  by (simp_all add: sphere_hit_def roots_def in_range_def Intersect_near Intersect_twin
      Intersect_far Intersect_aside)

lemma roots_eval:
  "roots (vec3 0 0 0) (vec3 0 0 1) sphere_near = [Finite 4, Finite 2]"
  "roots (vec3 0 0 0) (vec3 0 0 1) sphere_twin = [Finite 4, Finite 2]"
  "roots (vec3 0 0 0) (vec3 0 0 1) sphere_far = [Finite 7, Finite 5]"
  "roots (vec3 0 0 0) (vec3 0 0 1) sphere_aside = [PInf, PInf]"
  by (simp_all add: roots_def Intersect_near Intersect_twin Intersect_far Intersect_aside)





lemma Intersect_graze:
  "IntersectRaySphere (vec3 0 0 0) (vec3 0 0 1) sphere_graze = (Finite 4096, Finite 4096)"
  by (simp add: float_eval sphere_graze_def round32_2p24 round32_2p26 round32_quarter round32_absorb
      round32_16777217)

lemma Intersect_overflow:
  "IntersectRaySphere (vec3 0 0 0) (vec3 (2 ^ 70) 0 0) sphere_unit = (NaN, NaN)"
  by (simp add: float_eval sphere_unit_def round32_overflow signed_inf_def)

section \<open>The coefficients of the quadratic\<close>

text \<open>
  A finite result of an operation has finite operands. When the computed discriminant is
  a finite number that is not negative, the coefficient \<open>b\<close> is below \<open>2\<^sup>6\<^sup>4\<close> in
  magnitude and so is the root of the discriminant, so both numerators of the quadratic
  formula are finite, the second not above the first. When the computed
  \<open>direction \<cdot> direction\<close> is a positive number, the divisor is positive or \<open>+\<infinity>\<close>.
\<close>

lemma fadd_Finite:
  "fadd p q = Finite r \<Longrightarrow> \<exists>p' q'. p = Finite p' \<and> q = Finite q' \<and> round32 (p' + q') = Finite r"
  by (cases p; cases q) auto

lemma fsub_Finite:
  "fsub p q = Finite r \<Longrightarrow> \<exists>p' q'. p = Finite p' \<and> q = Finite q' \<and> round32 (p' - q') = Finite r"
  by (cases p; cases q) (auto simp: fsub_def)

lemma fmul_Finite:
  "fmul p q = Finite r \<Longrightarrow> \<exists>p' q'. p = Finite p' \<and> q = Finite q' \<and> round32 (p' * q') = Finite r"
  by (cases p; cases q) (auto simp: signed_inf_def split: if_splits)

lemma square_bound:
  fixes b :: real
  assumes "\<bar>b * b\<bar> < 2 ^ 128"
  shows "\<bar>b\<bar> < 2 ^ 64"
proof -
  from assms have "\<bar>b\<bar>\<^sup>2 < (2 ^ 64)\<^sup>2"
    by (simp add: power2_eq_square abs_mult)
  then show ?thesis by (rule power2_less_imp_less) simp
qed

lemma sqrt_bound:
  fixes D :: real
  assumes "0 \<le> D" "D < 2 ^ 128"
  shows "0 \<le> sqrt D \<and> sqrt D \<le> 2 ^ 64"
proof -
  from assms(2) have "D \<le> (2 ^ 64)\<^sup>2" by simp
  then have "sqrt D \<le> 2 ^ 64" by (intro real_le_lsqrt) simp_all
  with assms(1) show ?thesis by simp
qed

lemma numerators:
  assumes "round32 (b * b) = Finite p" "round32 x = Finite D" "0 \<le> D"
  shows "\<exists>v1 v2. fadd (fneg (Finite b)) (fsqrt (Finite D)) = Finite v1 \<and>
      fsub (fneg (Finite b)) (fsqrt (Finite D)) = Finite v2 \<and> v2 \<le> v1 \<and> (D = 0 \<longrightarrow> v1 = v2)"
proof -
  from round32_arg_bound [OF assms(1)] have b: "\<bar>b\<bar> < 2 ^ 64" by (rule square_bound)
  from round32_FiniteD [OF assms(2)] have "\<bar>D\<bar> < 2 ^ 128"
    using round_mag_nonneg [of "\<bar>x\<bar>"] by (auto simp: abs_mult abs_sgn_eq)
  with assms(3) have "D < 2 ^ 128" by simp
  from sqrt_bound [OF assms(3) this] have sq: "0 \<le> sqrt D" "\<bar>sqrt D\<bar> \<le> 2 powi 64" by simp_all
  from round32_le_bound [OF sq(2) round_mag_pow2] obtain s
    where s: "round32 (sqrt D) = Finite s" "\<bar>s\<bar> \<le> 2 powi 64" by auto
  from round32_mono_Finite [OF sq(1) round32_0 s(1)] have s0: "0 \<le> s" .
  have "\<bar>- b + s\<bar> \<le> 2 powi 65" "\<bar>- b - s\<bar> \<le> 2 powi 65"
    using b s(2) by simp_all
  from round32_le_bound [OF this(1) round_mag_pow2] round32_le_bound [OF this(2) round_mag_pow2]
  obtain v1 v2 where v: "round32 (- b + s) = Finite v1" "round32 (- b - s) = Finite v2" by auto
  have "- b - s \<le> - b + s" using s0 by simp
  from round32_mono_Finite [OF this v(2,1)] have "v2 \<le> v1" .
  moreover have "v1 = v2" if "D = 0"
  proof -
    from that s(1) have "s = 0" by simp
    with v show ?thesis by simp
  qed
  ultimately show ?thesis
    using assms(3) s(1) v by (simp add: fsub_def)
qed

lemma denominator:
  assumes "round32 x = Finite a" "0 < a"
  shows "fmul (float_of_int 2) (Finite a) = PInf \<or>
     (\<exists>w. fmul (float_of_int 2) (Finite a) = Finite w \<and> 0 < w)"
proof -
  from round32_min_pos [OF assms(1)] assms(2) have "2 powi (- 149) \<le> a" by simp
  then have "2 * 2 powi (- 149) \<le> 2 * a" by simp
  moreover have "2 * 2 powi (- 149) = (2::real) powi (- 148)"
    using power_int_add [of "2::real" 1 "- 149"] by simp
  ultimately have le: "2 powi (- 148) \<le> 2 * a" by simp
  have "round32 (2 powi (- 148)) = Finite (2 powi (- 148))"
    by (rule round32_pow2) simp_all
  with round32_mono [OF le] have "fge (round32 (2 * a)) (Finite (2 powi (- 148)))" by simp
  moreover have "0 < (2::real) powi (- 148)" by simp
  ultimately show ?thesis
    by (cases "round32 (2 * a)") (auto simp: fge_def float_of_int_2)
qed

lemma quotients_ordered:
  assumes "v2 \<le> v1" "den = PInf \<or> (\<exists>w. den = Finite w \<and> 0 < w)"
  shows "fge (fdiv (Finite v1) den) (fdiv (Finite v2) den)"
  using assms(2)
proof
  assume "den = PInf"
  then show ?thesis by (simp add: fge_def)
next
  assume "\<exists>w. den = Finite w \<and> 0 < w"
  then obtain w where w: "den = Finite w" "0 < w" by blast
  with assms(1) have "v2 / w \<le> v1 / w" by (simp add: divide_right_mono)
  from round32_mono [OF this] w show ?thesis by simp
qed

lemma roots_PInf_miss:
  "IntersectRaySphere origin direction sphere = (PInf, PInf) \<Longrightarrow>
   \<not> sphere_hit origin direction t_min t_max sphere"
  by (simp add: sphere_hit_def roots_def in_range_def)

lemma Intersect_unfold:
  assumes "oc = Vector3Subtract origin (center sphere)"
    and "Vector3DotProduct direction direction = k1"
    and "fmul (Finite 2) (Vector3DotProduct oc direction) = k2"
    and "fsub (Vector3DotProduct oc oc) (fmul (radius sphere) (radius sphere)) = k3"
    and "fsub (fmul k2 k2) (fmul (fmul (float_of_int 4) k1) k3) = Finite D" "0 \<le> D"
  shows "IntersectRaySphere origin direction sphere =
     (fdiv (fadd (fneg k2) (fsqrt (Finite D))) (fmul (float_of_int 2) k1),
      fdiv (fsub (fneg k2) (fsqrt (Finite D))) (fmul (float_of_int 2) k1))"
  unfolding IntersectRaySphere_def Let_def assms(1) [symmetric] assms(2-5)
  using assms(6) by (simp add: float_of_int_def)

section \<open>The canvas: properties\<close>

text \<open>
  C1. After \<^verbatim>\<open>SetViewPort(Vw, Vh, d)\<close>, \<^verbatim>\<open>CanvasToViewPort(x, y)\<close> returns the vector with
  \<open>x = x * Vw / W\<close>, \<open>y = - (y * Vh / H)\<close> and \<open>z = d\<close>, the product and the quotient
  being those of binary32: the vertical component is negated. For a finite \<open>Vw\<close> and
  integers up to \<open>2\<^sup>2\<^sup>4\<close>, which convert exactly, the horizontal component is the rounded
  quotient of the rounded product, and the vertical one its like, negated.
\<close>

theorem CanvasToViewPort_components:
  "CanvasToViewPort (SetViewPort c Vw Vh d) x y =
     \<lparr>vec_x = fdiv (fmul (float_of_int x) Vw) (float_of_int (CanvasWidth c)),
      vec_y = fneg (fdiv (fmul (float_of_int y) Vh) (float_of_int (CanvasHeight c))),
      vec_z = d\<rparr> \<and>
   (\<bar>x\<bar> \<le> 2 ^ 24 \<and> 0 < CanvasWidth c \<and> CanvasWidth c \<le> 2 ^ 24 \<longrightarrow>
      vec_x (CanvasToViewPort (SetViewPort c (Finite vw) Vh d) x y) =
        (case round32 (of_int x * vw) of
           Finite p \<Rightarrow> round32 (p / of_int (CanvasWidth c))
         | PInf \<Rightarrow> PInf | NInf \<Rightarrow> NInf | NaN \<Rightarrow> NaN)) \<and>
   (\<bar>y\<bar> \<le> 2 ^ 24 \<and> 0 < CanvasHeight c \<and> CanvasHeight c \<le> 2 ^ 24 \<longrightarrow>
      vec_y (CanvasToViewPort (SetViewPort c Vw (Finite vh) d) x y) =
        fneg (case round32 (of_int y * vh) of
                Finite p \<Rightarrow> round32 (p / of_int (CanvasHeight c))
              | PInf \<Rightarrow> PInf | NInf \<Rightarrow> NInf | NaN \<Rightarrow> NaN))"
proof (intro conjI impI)
  show "CanvasToViewPort (SetViewPort c Vw Vh d) x y =
     \<lparr>vec_x = fdiv (fmul (float_of_int x) Vw) (float_of_int (CanvasWidth c)),
      vec_y = fneg (fdiv (fmul (float_of_int y) Vh) (float_of_int (CanvasHeight c))),
      vec_z = d\<rparr>"
    by (simp add: CanvasToViewPort_def SetViewPort_def)
next
  assume h: "\<bar>x\<bar> \<le> 2 ^ 24 \<and> 0 < CanvasWidth c \<and> CanvasWidth c \<le> 2 ^ 24"
  then have "float_of_int x = Finite (of_int x)"
    "float_of_int (CanvasWidth c) = Finite (of_int (CanvasWidth c))"
    by (simp_all add: float_of_int_exact)
  with h show "vec_x (CanvasToViewPort (SetViewPort c (Finite vw) Vh d) x y) =
        (case round32 (of_int x * vw) of
           Finite p \<Rightarrow> round32 (p / of_int (CanvasWidth c))
         | PInf \<Rightarrow> PInf | NInf \<Rightarrow> NInf | NaN \<Rightarrow> NaN)"
    by (simp add: CanvasToViewPort_def SetViewPort_def signed_inf_def split: float.splits)
next
  assume h: "\<bar>y\<bar> \<le> 2 ^ 24 \<and> 0 < CanvasHeight c \<and> CanvasHeight c \<le> 2 ^ 24"
  then have "float_of_int y = Finite (of_int y)"
    "float_of_int (CanvasHeight c) = Finite (of_int (CanvasHeight c))"
    by (simp_all add: float_of_int_exact)
  with h show "vec_y (CanvasToViewPort (SetViewPort c Vw (Finite vh) d) x y) =
        fneg (case round32 (of_int y * vh) of
                Finite p \<Rightarrow> round32 (p / of_int (CanvasHeight c))
              | PInf \<Rightarrow> PInf | NInf \<Rightarrow> NInf | NaN \<Rightarrow> NaN)"
    by (simp add: CanvasToViewPort_def SetViewPort_def signed_inf_def split: float.splits)
qed

theorem CanvasToViewPort_components_witness:
  "\<bar>1::int\<bar> \<le> 2 ^ 24 \<and> \<bar>12::int\<bar> \<le> 2 ^ 24 \<and>
   0 < CanvasWidth main_canvas \<and> CanvasWidth main_canvas \<le> 2 ^ 24 \<and>
   0 < CanvasHeight main_canvas \<and> CanvasHeight main_canvas \<le> 2 ^ 24 \<and>
   vec_x (CanvasToViewPort (SetViewPort main_canvas (Finite 1) (Finite 1) (Finite 1)) 1 12)
     = Finite (5368709 / 4294967296) \<and>
   vec_y (CanvasToViewPort (SetViewPort main_canvas (Finite 1) (Finite 1) (Finite 1)) 1 12)
     = Finite (- (5368709 / 268435456)) \<and>
   vec_z (CanvasToViewPort (SetViewPort main_canvas (Finite 1) (Finite 1) (Finite 1)) 1 12)
     = Finite 1"
proof -
  note T = CanvasToViewPort_components [of main_canvas "Finite 1" "Finite 1" "Finite 1" 1 12 1 1]
  have cx: "\<bar>1::int\<bar> \<le> 2 ^ 24 \<and> 0 < CanvasWidth main_canvas \<and> CanvasWidth main_canvas \<le> 2 ^ 24"
    and cy: "\<bar>12::int\<bar> \<le> 2 ^ 24 \<and> 0 < CanvasHeight main_canvas \<and> CanvasHeight main_canvas \<le> 2 ^ 24"
    by (simp_all add: main_canvas_def)
  from T [THEN conjunct2, THEN conjunct1, THEN mp, OF cx]
  have x: "vec_x (CanvasToViewPort (SetViewPort main_canvas (Finite 1) (Finite 1) (Finite 1)) 1 12)
     = Finite (5368709 / 4294967296)"
    by (simp add: main_canvas_def round32_800th)
  from T [THEN conjunct2, THEN conjunct2, THEN mp, OF cy]
  have y: "vec_y (CanvasToViewPort (SetViewPort main_canvas (Finite 1) (Finite 1) (Finite 1)) 1 12)
     = Finite (- (5368709 / 268435456))"
    by (simp add: main_canvas_def round32_50th)
  from T [THEN conjunct1]
  have z: "vec_z (CanvasToViewPort (SetViewPort main_canvas (Finite 1) (Finite 1) (Finite 1)) 1 12)
     = Finite 1"
    by simp
  from cx cy x y z show ?thesis by blast
qed

text \<open>
  The vertical component without the negation is not what the function returns: on the
  canvas of \<^verbatim>\<open>main\<close>, pixel \<open>(0, 300)\<close> gives \<open>- 1/2\<close>, and \<open>300 * 1 / 600\<close> is \<open>1/2\<close>.
\<close>

theorem CanvasToViewPort_no_flip_counterexample:
  "vec_y (CanvasToViewPort (SetViewPort main_canvas (Finite 1) (Finite 1) (Finite 1)) 0 300)
     = Finite (- (1 / 2)) \<and>
   fdiv (fmul (float_of_int 300) (Finite 1)) (float_of_int (CanvasHeight main_canvas))
     = Finite (1 / 2) \<and>
   vec_y (CanvasToViewPort (SetViewPort main_canvas (Finite 1) (Finite 1) (Finite 1)) 0 300)
     \<noteq> fdiv (fmul (float_of_int 300) (Finite 1)) (float_of_int (CanvasHeight main_canvas))"
  by (simp add: CanvasToViewPort_def SetViewPort_def float_of_int_def main_canvas_def round32_half)

text \<open>
  C2. The centred bounds predicate and the top-left bounds predicate of the mapped
  coordinate disagree on the canvas of \<^verbatim>\<open>main\<close>: \<open>(0, - 300)\<close> passes
  \<^verbatim>\<open>IsInBoundsCentered\<close>, is mapped to \<open>(400, 600)\<close>, which fails \<^verbatim>\<open>IsInBounds\<close>, and
  \<^verbatim>\<open>PutPixelCentered\<close> writes nothing; \<open>(0, 300)\<close> fails \<^verbatim>\<open>IsInBoundsCentered\<close>, is
  mapped to \<open>(400, 0)\<close>, which passes \<^verbatim>\<open>IsInBounds\<close>, and the pixel is written.
\<close>

theorem PutPixelCentered_bounds_disagree:
  "IsInBoundsCentered main_canvas 0 (- 300) \<and>
   screen_of_centered main_canvas 0 (- 300) = (400, 600) \<and>
   \<not> IsInBounds main_canvas 400 600 \<and>
   PutPixelCentered main_canvas 0 (- 300) BLACK = main_canvas \<and>
   \<not> IsInBoundsCentered main_canvas 0 300 \<and>
   screen_of_centered main_canvas 0 300 = (400, 0) \<and>
   IsInBounds main_canvas 400 0 \<and>
   renderTexture (PutPixelCentered main_canvas 0 300 BLACK) (400, 0) = BLACK"
  by (simp add: IsInBoundsCentered_def IsInBounds_def screen_of_centered_def PutPixelCentered_def
      PutPixel_def DrawPixel_def main_canvas_def signed_divide_int_def)

text \<open>
  C8. For a screen coordinate outside \<open>[0, W) \<times> [0, H)\<close>, \<^verbatim>\<open>PutPixel\<close> returns the canvas
  as it was: no pixel of the framebuffer changes, and there is no error to return. Inside,
  the pixel at \<open>(x, y)\<close> takes the colour and every other pixel keeps its own.
\<close>

theorem PutPixel_bounds:
  "(\<not> (0 \<le> x \<and> x < CanvasWidth c \<and> 0 \<le> y \<and> y < CanvasHeight c) \<longrightarrow>
      PutPixel c x y col = c) \<and>
   (0 \<le> x \<and> x < CanvasWidth c \<and> 0 \<le> y \<and> y < CanvasHeight c \<longrightarrow>
      PutPixel c x y col = c\<lparr>renderTexture := (renderTexture c)((x, y) := col)\<rparr> \<and>
      renderTexture (PutPixel c x y col) (x, y) = col \<and>
      (\<forall>p. p \<noteq> (x, y) \<longrightarrow> renderTexture (PutPixel c x y col) p = renderTexture c p))"
  by (auto simp: PutPixel_def IsInBounds_def DrawPixel_def)

theorem PutPixel_bounds_witness:
  "\<not> (0 \<le> (800::int) \<and> 800 < CanvasWidth main_canvas \<and> 0 \<le> (0::int) \<and> 0 < CanvasHeight main_canvas) \<and>
   PutPixel main_canvas 800 0 BLACK = main_canvas \<and>
   \<not> (0 \<le> (0::int) \<and> 0 < CanvasWidth main_canvas \<and> 0 \<le> (- 1::int) \<and> - 1 < CanvasHeight main_canvas) \<and>
   PutPixel main_canvas 0 (- 1) BLACK = main_canvas \<and>
   (0 \<le> (799::int) \<and> 799 < CanvasWidth main_canvas \<and> 0 \<le> (599::int) \<and> 599 < CanvasHeight main_canvas) \<and>
   renderTexture (PutPixel main_canvas 799 599 BLACK) (799, 599) = BLACK \<and>
   renderTexture (PutPixel main_canvas 799 599 BLACK) (0, 0) = WHITE"
  using PutPixel_bounds [of 800 main_canvas 0 BLACK] PutPixel_bounds [of 0 main_canvas "- 1" BLACK]
    PutPixel_bounds [of 799 main_canvas 599 BLACK]
  by (simp add: main_canvas_def)

section \<open>The intersection: properties\<close>

text \<open>
  C4. With \<open>a = direction \<cdot> direction\<close>, \<open>b = 2 (origin - center) \<cdot> direction\<close> and
  \<open>c = (origin - center) \<cdot> (origin - center) - radius\<^sup>2\<close> as the function computes them
  in binary32, whenever the computed discriminant \<open>b\<^sup>2 - 4ac\<close> is below zero,
  \<^verbatim>\<open>IntersectRaySphere\<close> returns \<open>(+\<infinity>, +\<infinity>)\<close>, and the sphere has no root in any range.
\<close>

theorem IntersectRaySphere_no_real_root:
  assumes "oc = Vector3Subtract origin (center sphere)"
    and "a = Vector3DotProduct direction direction"
    and "b = fmul (Finite 2) (Vector3DotProduct oc direction)"
    and "c = fsub (Vector3DotProduct oc oc) (fmul (radius sphere) (radius sphere))"
    and "flt (fsub (fmul b b) (fmul (fmul (float_of_int 4) a) c)) (float_of_int 0)"
  shows "IntersectRaySphere origin direction sphere = (PInf, PInf) \<and>
     \<not> sphere_hit origin direction t_min t_max sphere"
proof -
  from assms have "IntersectRaySphere origin direction sphere = (PInf, PInf)"
    by (simp add: IntersectRaySphere_def Let_def)
  with roots_PInf_miss [OF this] show ?thesis by simp
qed

theorem IntersectRaySphere_no_real_root_witness:
  "flt (fsub (fmul (Finite (- 6)) (Finite (- 6))) (fmul (fmul (float_of_int 4) (Finite 1)) (Finite 33)))
     (float_of_int 0) \<and>
   IntersectRaySphere (vec3 0 0 0) (vec3 0 0 1) sphere_aside = (PInf, PInf) \<and>
   \<not> sphere_hit (vec3 0 0 0) (vec3 0 0 1) (Finite 1) PInf sphere_aside"
proof -
  have oc: "vec3 (- 5) 0 (- 3) = Vector3Subtract (vec3 0 0 0) (center sphere_aside)"
    by (simp add: vec3_def Vector3Subtract_def fsub_def sphere_aside_def)
  have a: "Finite 1 = Vector3DotProduct (vec3 0 0 1) (vec3 0 0 1)"
    by (simp add: vec3_def Vector3DotProduct_def)
  have b: "Finite (- 6) = fmul (Finite 2) (Vector3DotProduct (vec3 (- 5) 0 (- 3)) (vec3 0 0 1))"
    by (simp add: vec3_def Vector3DotProduct_def)
  have c: "Finite 33 = fsub (Vector3DotProduct (vec3 (- 5) 0 (- 3)) (vec3 (- 5) 0 (- 3)))
      (fmul (radius sphere_aside) (radius sphere_aside))"
    by (simp add: vec3_def Vector3DotProduct_def fsub_def sphere_aside_def)
  have d: "flt (fsub (fmul (Finite (- 6)) (Finite (- 6)))
      (fmul (fmul (float_of_int 4) (Finite 1)) (Finite 33))) (float_of_int 0)"
    by (simp add: fsub_def float_of_int_def)
  from IntersectRaySphere_no_real_root [OF oc a b c d, of "Finite 1" PInf] d show ?thesis
    by simp
qed

text \<open>
  The discriminant in the real numbers being negative is not enough: for \<open>sphere_graze\<close>
  it is \<open>- 3\<close>, but \<open>1 + 2\<^sup>2\<^sup>4\<close> and \<open>2\<^sup>2\<^sup>4 - 1/4\<close> are both rounded to \<open>2\<^sup>2\<^sup>4\<close>, the
  computed discriminant is \<open>0\<close> and the function returns the root \<open>4096\<close> twice.
\<close>

theorem IntersectRaySphere_no_real_root_counterexample:
  "exact_discriminant (0, 0, 0) (0, 0, 1) (1, 0, 4096) (1 / 2) = - 3 \<and>
   center sphere_graze = vec3 1 0 4096 \<and> radius sphere_graze = Finite (1 / 2) \<and>
   IntersectRaySphere (vec3 0 0 0) (vec3 0 0 1) sphere_graze = (Finite 4096, Finite 4096) \<and>
   IntersectRaySphere (vec3 0 0 0) (vec3 0 0 1) sphere_graze \<noteq> (PInf, PInf)"
proof (intro conjI)
  show "exact_discriminant (0, 0, 0) (0, 0, 1) (1, 0, 4096) (1 / 2) = - 3"
    by (simp add: exact_discriminant_def)
  show "center sphere_graze = vec3 1 0 4096" "radius sphere_graze = Finite (1 / 2)"
    by (simp_all add: sphere_graze_def)
  show "IntersectRaySphere (vec3 0 0 0) (vec3 0 0 1) sphere_graze = (Finite 4096, Finite 4096)"
    by (rule Intersect_graze)
  then show "IntersectRaySphere (vec3 0 0 0) (vec3 0 0 1) sphere_graze \<noteq> (PInf, PInf)"
    by simp
qed




text \<open>
  C10. When the computed \<open>a = direction \<cdot> direction\<close> is a positive number and the
  computed discriminant is a number that is not negative, the first root
  \<^verbatim>\<open>IntersectRaySphere\<close> returns is greater than or equal to the second, and neither is
  NaN.
\<close>

theorem IntersectRaySphere_ordered:
  assumes "oc = Vector3Subtract origin (center sphere)"
    and "Vector3DotProduct direction direction = Finite a" and "0 < a"
    and "b = fmul (Finite 2) (Vector3DotProduct oc direction)"
    and "c = fsub (Vector3DotProduct oc oc) (fmul (radius sphere) (radius sphere))"
    and "fsub (fmul b b) (fmul (fmul (float_of_int 4) (Finite a)) c) = Finite D" and "0 \<le> D"
  shows "fge (fst (IntersectRaySphere origin direction sphere))
             (snd (IntersectRaySphere origin direction sphere))"
proof -
  from fsub_Finite [OF assms(6)] obtain p where "fmul b b = Finite p"
    and "\<exists>x. round32 x = Finite D" by blast
  then obtain x where x: "round32 x = Finite D" by blast
  from fmul_Finite [OF \<open>fmul b b = Finite p\<close>] obtain b' where b': "b = Finite b'"
    "round32 (b' * b') = Finite p" by auto
  from numerators [OF b'(2) x assms(7)] obtain v1 v2
    where v: "fadd (fneg (Finite b')) (fsqrt (Finite D)) = Finite v1"
      "fsub (fneg (Finite b')) (fsqrt (Finite D)) = Finite v2" "v2 \<le> v1" by blast
  from assms(2) obtain y where "round32 y = Finite a"
    unfolding Vector3DotProduct_def by (blast dest: fadd_Finite)
  from denominator [OF this assms(3)]
  have den: "fmul (float_of_int 2) (Finite a) = PInf \<or>
     (\<exists>w. fmul (float_of_int 2) (Finite a) = Finite w \<and> 0 < w)" .
  have "IntersectRaySphere origin direction sphere =
     (fdiv (Finite v1) (fmul (float_of_int 2) (Finite a)),
      fdiv (Finite v2) (fmul (float_of_int 2) (Finite a)))"
    using Intersect_unfold [OF assms(1,2) assms(4) [symmetric] assms(5) [symmetric] assms(6,7)]
    by (simp only: b' v)
  with quotients_ordered [OF v(3) den] show ?thesis by simp
qed

theorem IntersectRaySphere_ordered_witness:
  "(0::real) < 1 \<and> (0::real) \<le> 4 \<and>
   fsub (fmul (Finite (- 6)) (Finite (- 6))) (fmul (fmul (float_of_int 4) (Finite 1)) (Finite 8))
     = Finite 4 \<and>
   IntersectRaySphere (vec3 0 0 0) (vec3 0 0 1) sphere_near = (Finite 4, Finite 2) \<and>
   fge (fst (IntersectRaySphere (vec3 0 0 0) (vec3 0 0 1) sphere_near))
       (snd (IntersectRaySphere (vec3 0 0 0) (vec3 0 0 1) sphere_near))"
proof -
  have oc: "vec3 0 0 (- 3) = Vector3Subtract (vec3 0 0 0) (center sphere_near)"
    by (simp add: vec3_def Vector3Subtract_def fsub_def sphere_near_def)
  have a: "Vector3DotProduct (vec3 0 0 1) (vec3 0 0 1) = Finite 1" "(0::real) < 1"
    by (simp_all add: vec3_def Vector3DotProduct_def)
  have b: "Finite (- 6) = fmul (Finite 2) (Vector3DotProduct (vec3 0 0 (- 3)) (vec3 0 0 1))"
    by (simp add: vec3_def Vector3DotProduct_def)
  have c: "Finite 8 = fsub (Vector3DotProduct (vec3 0 0 (- 3)) (vec3 0 0 (- 3)))
      (fmul (radius sphere_near) (radius sphere_near))"
    by (simp add: vec3_def Vector3DotProduct_def fsub_def sphere_near_def)
  have d: "fsub (fmul (Finite (- 6)) (Finite (- 6))) (fmul (fmul (float_of_int 4) (Finite 1)) (Finite 8))
      = Finite 4" "(0::real) \<le> 4"
    by (simp_all add: fsub_def float_of_int_def)
  from IntersectRaySphere_ordered [OF oc a b c d] a(2) d Intersect_near show ?thesis
    by blast
qed

text \<open>
  Without the two being finite the order is lost: for the direction \<open>(2\<^sup>7\<^sup>0, 0, 0)\<close> from
  the centre of the unit sphere, \<open>a\<close> is \<open>2\<^sup>1\<^sup>4\<^sup>0\<close> and the discriminant \<open>4 \<cdot> 2\<^sup>1\<^sup>4\<^sup>0\<close> in the
  real numbers, both positive; in binary32 both overflow to \<open>+\<infinity>\<close>, and the function
  returns NaN twice.
\<close>

theorem IntersectRaySphere_ordered_counterexample:
  "(0::real) < 2 ^ 70 * 2 ^ 70 + 0 * 0 + 0 * 0 \<and>
   exact_discriminant (0, 0, 0) (2 ^ 70, 0, 0) (0, 0, 0) 1 = 4 * 2 ^ 140 \<and>
   Vector3DotProduct (vec3 (2 ^ 70) 0 0) (vec3 (2 ^ 70) 0 0) = PInf \<and>
   center sphere_unit = vec3 0 0 0 \<and> radius sphere_unit = Finite 1 \<and>
   IntersectRaySphere (vec3 0 0 0) (vec3 (2 ^ 70) 0 0) sphere_unit = (NaN, NaN) \<and>
   \<not> fge (fst (IntersectRaySphere (vec3 0 0 0) (vec3 (2 ^ 70) 0 0) sphere_unit))
          (snd (IntersectRaySphere (vec3 0 0 0) (vec3 (2 ^ 70) 0 0) sphere_unit))"
proof (intro conjI)
  show "(0::real) < 2 ^ 70 * 2 ^ 70 + 0 * 0 + 0 * 0"
    by simp
  show "exact_discriminant (0, 0, 0) (2 ^ 70, 0, 0) (0, 0, 0) 1 = 4 * 2 ^ 140"
    by (simp add: exact_discriminant_def)
  show "Vector3DotProduct (vec3 (2 ^ 70) 0 0) (vec3 (2 ^ 70) 0 0) = PInf"
    by (simp add: Vector3DotProduct_def vec3_def round32_overflow)
  show "center sphere_unit = vec3 0 0 0" "radius sphere_unit = Finite 1"
    by (simp_all add: sphere_unit_def)
  show "IntersectRaySphere (vec3 0 0 0) (vec3 (2 ^ 70) 0 0) sphere_unit = (NaN, NaN)"
    by (rule Intersect_overflow)
  then show "\<not> fge (fst (IntersectRaySphere (vec3 0 0 0) (vec3 (2 ^ 70) 0 0) sphere_unit))
          (snd (IntersectRaySphere (vec3 0 0 0) (vec3 (2 ^ 70) 0 0) sphere_unit))"
    by (simp add: fge_def)
qed

section \<open>The tracer: properties\<close>





text \<open>
  C7. Two scenes with the same spheres, in which the spheres that have a root in range
  come in the same order, give the same colour: moving the spheres without a root in
  range changes nothing. And when a sphere owns a root \<open>t\<close> in range, every root in range
  of the spheres before it is above \<open>t\<close> and no root in range of it or of the spheres
  after it is below \<open>t\<close>, the colour returned is that sphere's: among the spheres that
  tie on the smallest root in range, the first in the order of the scene wins.
\<close>

theorem TraceRay_reorder:
  "(mset (spheres rt') = mset (spheres rt) \<and>
    filter (sphere_hit origin direction t_min t_max) (spheres rt') =
      filter (sphere_hit origin direction t_min t_max) (spheres rt) \<longrightarrow>
      fst (TraceRay rt' cv origin direction t_min t_max) =
      fst (TraceRay rt cv origin direction t_min t_max)) \<and>
   (spheres rt = pre @ s # post \<and>
    (\<forall>p\<in>set pre. \<forall>t'\<in>set (roots origin direction p). in_range t_min t_max t' \<longrightarrow> flt t t') \<and>
    t \<in> set (roots origin direction s) \<and> in_range t_min t_max t \<and>
    (\<forall>q\<in>set (s # post). \<forall>t'\<in>set (roots origin direction q).
        in_range t_min t_max t' \<longrightarrow> \<not> flt t' t) \<longrightarrow>
      fst (TraceRay rt cv origin direction t_min t_max) = color s)"
proof (intro conjI impI)
  assume "mset (spheres rt') = mset (spheres rt) \<and>
    filter (sphere_hit origin direction t_min t_max) (spheres rt') =
      filter (sphere_hit origin direction t_min t_max) (spheres rt)"
  then have "TraceRay_loop origin direction t_min t_max (spheres rt') =
      TraceRay_loop origin direction t_min t_max (spheres rt)"
    using loop_filter [of origin direction t_min t_max "(PInf, None)" "spheres rt'"]
      loop_filter [of origin direction t_min t_max "(PInf, None)" "spheres rt"]
    by (simp add: TraceRay_loop_def)
  then show "fst (TraceRay rt' cv origin direction t_min t_max) =
      fst (TraceRay rt cv origin direction t_min t_max)"
    by (simp add: TraceRay_color)
next
  assume h: "spheres rt = pre @ s # post \<and>
    (\<forall>p\<in>set pre. \<forall>t'\<in>set (roots origin direction p). in_range t_min t_max t' \<longrightarrow> flt t t') \<and>
    t \<in> set (roots origin direction s) \<and> in_range t_min t_max t \<and>
    (\<forall>q\<in>set (s # post). \<forall>t'\<in>set (roots origin direction q).
        in_range t_min t_max t' \<longrightarrow> \<not> flt t' t)"
  then have "TraceRay_loop origin direction t_min t_max (pre @ s # post) = (t, Some s)"
    by (intro loop_first_min) blast+
  with h show "fst (TraceRay rt cv origin direction t_min t_max) = color s"
    by (simp add: TraceRay_color)
qed

theorem TraceRay_reorder_witness:
  "mset (spheres tie_tracer_moved) = mset (spheres tie_tracer) \<and>
   filter (sphere_hit (vec3 0 0 0) (vec3 0 0 1) (Finite 1) (Finite 10)) (spheres tie_tracer_moved) =
     filter (sphere_hit (vec3 0 0 0) (vec3 0 0 1) (Finite 1) (Finite 10)) (spheres tie_tracer) \<and>
   fst (TraceRay tie_tracer_moved main_canvas (vec3 0 0 0) (vec3 0 0 1) (Finite 1) (Finite 10)) =
     fst (TraceRay tie_tracer main_canvas (vec3 0 0 0) (vec3 0 0 1) (Finite 1) (Finite 10)) \<and>
   spheres tie_tracer = [sphere_aside] @ sphere_near # [sphere_twin, sphere_far] \<and>
   Finite 2 \<in> set (roots (vec3 0 0 0) (vec3 0 0 1) sphere_near) \<and>
   Finite 2 \<in> set (roots (vec3 0 0 0) (vec3 0 0 1) sphere_twin) \<and>
   in_range (Finite 1) (Finite 10) (Finite 2) \<and>
   fst (TraceRay tie_tracer main_canvas (vec3 0 0 0) (vec3 0 0 1) (Finite 1) (Finite 10)) =
     color sphere_near \<and>
   color sphere_near \<noteq> color sphere_twin"
proof -
  have m: "mset (spheres tie_tracer_moved) = mset (spheres tie_tracer)"
    by (simp add: tie_tracer_def tie_tracer_moved_def)
  have f: "filter (sphere_hit (vec3 0 0 0) (vec3 0 0 1) (Finite 1) (Finite 10)) (spheres tie_tracer_moved) =
     filter (sphere_hit (vec3 0 0 0) (vec3 0 0 1) (Finite 1) (Finite 10)) (spheres tie_tracer)"
    by (simp add: tie_tracer_def tie_tracer_moved_def sphere_hit_eval)
  have d: "spheres tie_tracer = [sphere_aside] @ sphere_near # [sphere_twin, sphere_far]"
    by (simp add: tie_tracer_def)
  have pre: "\<forall>p\<in>set [sphere_aside]. \<forall>t'\<in>set (roots (vec3 0 0 0) (vec3 0 0 1) p).
      in_range (Finite 1) (Finite 10) t' \<longrightarrow> flt (Finite 2) t'"
    by (simp add: roots_eval in_range_def)
  have r: "Finite 2 \<in> set (roots (vec3 0 0 0) (vec3 0 0 1) sphere_near)"
    "Finite 2 \<in> set (roots (vec3 0 0 0) (vec3 0 0 1) sphere_twin)"
    "in_range (Finite 1) (Finite 10) (Finite 2)"
    by (simp_all add: roots_eval in_range_def)
  have post: "\<forall>q\<in>set (sphere_near # [sphere_twin, sphere_far]).
      \<forall>t'\<in>set (roots (vec3 0 0 0) (vec3 0 0 1) q).
        in_range (Finite 1) (Finite 10) t' \<longrightarrow> \<not> flt t' (Finite 2)"
    by (simp add: roots_eval in_range_def)
  note T = TraceRay_reorder [of tie_tracer_moved tie_tracer "vec3 0 0 0" "vec3 0 0 1"
      "Finite 1" "Finite 10" main_canvas "[sphere_aside]" sphere_near "[sphere_twin, sphere_far]"
      "Finite 2"]
  from T m f have 1: "fst (TraceRay tie_tracer_moved main_canvas (vec3 0 0 0) (vec3 0 0 1) (Finite 1) (Finite 10)) =
     fst (TraceRay tie_tracer main_canvas (vec3 0 0 0) (vec3 0 0 1) (Finite 1) (Finite 10))"
    by blast
  from T d pre r(1,3) post
  have 2: "fst (TraceRay tie_tracer main_canvas (vec3 0 0 0) (vec3 0 0 1) (Finite 1) (Finite 10)) =
     color sphere_near"
    by blast
  have 3: "color sphere_near \<noteq> color sphere_twin"
    by (simp add: sphere_near_def sphere_twin_def rgba_def)
  from m f 1 d r 2 3 show ?thesis by blast
qed

text \<open>
  C9. \<^verbatim>\<open>TraceRay\<close> leaves the spheres of the tracer as they are, after one call and after
  any sequence of calls with any arguments; on the tracer the constructor builds, the
  centres, radii and colours stay the five of the constructor.
\<close>

theorem TraceRay_scene_fixed:
  "spheres (snd (TraceRay rt cv origin direction t_min t_max)) = spheres rt \<and>
   spheres (TraceRay_calls rt calls) = spheres rt \<and>
   map center (spheres (TraceRay_calls Raytracer_new calls)) =
     [vec3 0 (- 1) 3, vec3 (- 2) 0 4, vec3 2 0 4, vec3 0 (- 5001) 0, vec3 0 2 3] \<and>
   map radius (spheres (TraceRay_calls Raytracer_new calls)) =
     [Finite 1, Finite 1, Finite 1, Finite 5000, Finite 1] \<and>
   map color (spheres (TraceRay_calls Raytracer_new calls)) =
     [rgba 255 0 0 255, rgba 0 255 0 255, rgba 0 0 255 255, rgba 255 255 0 255, BLACK]"
  by (simp add: TraceRay_state TraceRay_calls_state Raytracer_new_def)

end
